theory Spec2Isabelle
  imports Complex_Main
begin

section \<open>Data model (src/core/gameState.ts)\<close>

text \<open>
  The source computes on JavaScript numbers. The configuration holds whole seconds and the
  clock whole milliseconds, far below \<open>2^53\<close>, where JavaScript arithmetic on integers is
  exact; the model uses \<^typ>\<open>int\<close> for every time field, count and delta. The tagged unions
  (\<open>type: 'byoyomi' | 'canadian' | 'fischer'\<close>) are datatypes, \<open>OvertimeState | null\<close> is an
  option.
\<close>

datatype TimeControlConfig =
    ByoYomiConfig (mainTimeSeconds: int) (periods: int) (periodTimeSeconds: int)
  | CanadianConfig (mainTimeSeconds: int) (stones: int) (overtimeSeconds: int)
  | FischerConfig (mainTimeSeconds: int) (incrementSeconds: int)

datatype OvertimeState =
    ByoYomiOvertime (periodsRemaining: int) (periodTimeRemainingMs: int)
  | CanadianOvertime (stonesRemaining: int) (overtimeRemainingMs: int)

record PlayerState =
  mainTimeRemainingMs :: int
  overtime :: "OvertimeState option"
  moves :: int
  isInOvertime :: bool

definition createInitialPlayerState :: "TimeControlConfig \<Rightarrow> PlayerState" where
  "createInitialPlayerState config =
     \<lparr>mainTimeRemainingMs = mainTimeSeconds config * 1000,
      overtime = None,
      moves = 0,
      isInOvertime = False\<rparr>"

section \<open>Time-control engine (src/core/timeControl.ts)\<close>

record TickResult =
  newState :: PlayerState
  expired :: bool
  enteredOvertime :: bool

text \<open>\<open>createOvertimeState\<close>: the fresh overtime state of a scheme, \<open>null\<close> for Fischer.\<close>

fun createOvertimeState :: "TimeControlConfig \<Rightarrow> OvertimeState option" where
  "createOvertimeState (ByoYomiConfig m p pt) = Some (ByoYomiOvertime p (pt * 1000))"
| "createOvertimeState (CanadianConfig m st ot) = Some (CanadianOvertime st (ot * 1000))"
| "createOvertimeState (FischerConfig m inc) = None"

text \<open>
  The \<open>while\<close> loop of the byo-yomi branch of \<open>tickOvertime\<close>, on the pair
  (\<open>periodsRemaining\<close>, \<open>periodTimeRemainingMs\<close>); \<open>T\<close> is
  \<open>config.periodTimeSeconds * 1000\<close>.
\<close>

function tickOvertime_loop :: "int \<Rightarrow> int \<Rightarrow> int \<Rightarrow> int \<times> int" where
  "tickOvertime_loop T P R =
     (if R \<le> 0 \<and> P > 0
      then tickOvertime_loop T (P - 1) (if P - 1 > 0 then R + T else R)
      else (P, R))"
  by pat_completeness auto
termination
  by (relation "measure (\<lambda>(T, P, R). nat P)") auto

declare tickOvertime_loop.simps [simp del]

text \<open>\<open>tickOvertime\<close> returns the pair \<open>{newState, expired}\<close>.\<close>

fun tickOvertime :: "PlayerState \<Rightarrow> TimeControlConfig \<Rightarrow> int \<Rightarrow> PlayerState \<times> bool" where
  "tickOvertime state (ByoYomiConfig m p pt) deltaMs =
     (case overtime state of
        Some (ByoYomiOvertime P R) \<Rightarrow>
          (case tickOvertime_loop (pt * 1000) P (R - deltaMs) of
             (P', R') \<Rightarrow>
               if P' \<le> 0
               then (state\<lparr>overtime := Some (ByoYomiOvertime P' 0)\<rparr>, True)
               else (state\<lparr>overtime := Some (ByoYomiOvertime P' R')\<rparr>, False))
      | _ \<Rightarrow> (state, False))"
| "tickOvertime state (CanadianConfig m st ot) deltaMs =
     (case overtime state of
        Some (CanadianOvertime S R) \<Rightarrow>
          (if R - deltaMs \<le> 0
           then (state\<lparr>overtime := Some (CanadianOvertime S 0)\<rparr>, True)
           else (state\<lparr>overtime := Some (CanadianOvertime S (R - deltaMs))\<rparr>, False))
      | _ \<Rightarrow> (state, False))"
| "tickOvertime state (FischerConfig m inc) deltaMs = (state, True)"

definition tick :: "PlayerState \<Rightarrow> TimeControlConfig \<Rightarrow> int \<Rightarrow> TickResult" where
  "tick state config deltaMs =
     (if isInOvertime state
      then (case tickOvertime state config deltaMs of
              (s', e) \<Rightarrow> \<lparr>newState = s', expired = e, enteredOvertime = False\<rparr>)
      else if mainTimeRemainingMs state - deltaMs \<le> 0
      then (let overflow = - (mainTimeRemainingMs state - deltaMs);
                entered = state\<lparr>mainTimeRemainingMs := 0,
                                isInOvertime := True,
                                overtime := createOvertimeState config\<rparr>
            in case overtime entered of
                 Some ot \<Rightarrow>
                   (case tickOvertime entered config overflow of
                      (s', e) \<Rightarrow> \<lparr>newState = s', expired = e, enteredOvertime = True\<rparr>)
               | None \<Rightarrow> \<lparr>newState = entered, expired = True, enteredOvertime = True\<rparr>)
      else \<lparr>newState = state\<lparr>mainTimeRemainingMs := mainTimeRemainingMs state - deltaMs\<rparr>,
            expired = False, enteredOvertime = False\<rparr>)"

fun onMove :: "PlayerState \<Rightarrow> TimeControlConfig \<Rightarrow> PlayerState" where
  "onMove state (FischerConfig m inc) =
     (let newState = state\<lparr>moves := moves state + 1\<rparr>
      in if \<not> isInOvertime newState
         then newState\<lparr>mainTimeRemainingMs := mainTimeRemainingMs newState + inc * 1000\<rparr>
         else newState)"
| "onMove state (ByoYomiConfig m p pt) =
     (let newState = state\<lparr>moves := moves state + 1\<rparr>
      in if isInOvertime newState
         then (case overtime newState of
                 Some (ByoYomiOvertime P R) \<Rightarrow>
                   newState\<lparr>overtime := Some (ByoYomiOvertime P (pt * 1000))\<rparr>
               | _ \<Rightarrow> newState)
         else newState)"
| "onMove state (CanadianConfig m st ot) =
     (let newState = state\<lparr>moves := moves state + 1\<rparr>
      in if isInOvertime newState
         then (case overtime newState of
                 Some (CanadianOvertime S R) \<Rightarrow>
                   (let stones' = S - 1
                    in if stones' \<le> 0
                       then newState\<lparr>overtime := Some (CanadianOvertime st (ot * 1000))\<rparr>
                       else newState\<lparr>overtime := Some (CanadianOvertime stones' R)\<rparr>)
               | _ \<Rightarrow> newState)
         else newState)"

text \<open>
  \<open>formatTime\<close> and the JavaScript built-ins it calls, on integers:
  \<open>Number.prototype.toString\<close> (decimal digits, a sign for negative numbers),
  \<open>String.prototype.padStart\<close>, the remainder operator \<open>%\<close> (the sign of the dividend)
  and \<open>Math.ceil(a / b)\<close> for positive \<open>b\<close>. Below \<open>2^53\<close> the quotient \<open>ms / 1000\<close> of an
  integer \<open>ms\<close> is rounded to a double on the same side of every integer, so the ceiling of
  the double is the ceiling of the exact quotient.
\<close>

definition digit_char :: "nat \<Rightarrow> char" where
  "digit_char n = ''0123456789'' ! n"

fun toString_nat :: "nat \<Rightarrow> string" where
  "toString_nat n =
     (if n < 10 then [digit_char n] else toString_nat (n div 10) @ [digit_char (n mod 10)])"

declare toString_nat.simps [simp del]

definition toString :: "int \<Rightarrow> string" where
  "toString n = (if n < 0 then CHR ''-'' # toString_nat (nat (- n)) else toString_nat (nat n))"

definition padStart :: "string \<Rightarrow> nat \<Rightarrow> char \<Rightarrow> string" where
  "padStart str targetLength c = replicate (targetLength - length str) c @ str"

definition js_rem :: "int \<Rightarrow> int \<Rightarrow> int" where
  "js_rem a b = (if a < 0 then - ((- a) mod \<bar>b\<bar>) else a mod \<bar>b\<bar>)"

definition Math_ceil_div :: "int \<Rightarrow> int \<Rightarrow> int" where
  "Math_ceil_div a b = - ((- a) div b)"

definition formatTime :: "int \<Rightarrow> string" where
  "formatTime ms =
     (let totalSeconds = max 0 (Math_ceil_div ms 1000);
          hours = totalSeconds div 3600;
          minutes = js_rem totalSeconds 3600 div 60;
          seconds = js_rem totalSeconds 60
      in if hours > 0
         then toString hours @ '':'' @ padStart (toString minutes) 2 CHR ''0'' @ '':''
              @ padStart (toString seconds) 2 CHR ''0''
         else toString minutes @ '':'' @ padStart (toString seconds) 2 CHR ''0'')"

text \<open>
  The state \<open>tick\<close> builds when main time runs out: main time clamped to 0, the overtime flag
  set, and the fresh overtime state of the scheme.
\<close>

definition enter_overtime :: "PlayerState \<Rightarrow> TimeControlConfig \<Rightarrow> PlayerState" where
  "enter_overtime s c = s\<lparr>mainTimeRemainingMs := 0, isInOvertime := True,
                             overtime := createOvertimeState c\<rparr>"

text \<open>
  Which arm of the \<open>if / else if\<close> chain of \<open>tickOvertime\<close> runs, and the call to
  \<open>tickOvertime\<close> (state and delta passed) that \<open>tick\<close> makes, if any. Both follow the
  same conditions as the functions above and only record the control flow.
\<close>

datatype OvertimeBranch = ByoYomiBranch | CanadianBranch | FischerBranch | NoBranch

fun tickOvertime_branch :: "PlayerState \<Rightarrow> TimeControlConfig \<Rightarrow> OvertimeBranch" where
  "tickOvertime_branch state (ByoYomiConfig m p pt) =
     (case overtime state of Some (ByoYomiOvertime P R) \<Rightarrow> ByoYomiBranch | _ \<Rightarrow> NoBranch)"
| "tickOvertime_branch state (CanadianConfig m st ot) =
     (case overtime state of Some (CanadianOvertime S R) \<Rightarrow> CanadianBranch | _ \<Rightarrow> NoBranch)"
| "tickOvertime_branch state (FischerConfig m inc) = FischerBranch"

definition tick_overtime_call ::
  "PlayerState \<Rightarrow> TimeControlConfig \<Rightarrow> int \<Rightarrow> (PlayerState \<times> int) option" where
  "tick_overtime_call state config deltaMs =
     (if isInOvertime state then Some (state, deltaMs)
      else if mainTimeRemainingMs state - deltaMs \<le> 0
      then (let overflow = - (mainTimeRemainingMs state - deltaMs);
                entered = state\<lparr>mainTimeRemainingMs := 0,
                                isInOvertime := True,
                                overtime := createOvertimeState config\<rparr>
            in case overtime entered of
                 Some ot \<Rightarrow> Some (entered, overflow)
               | None \<Rightarrow> None)
      else None)"

definition tick_branch :: "PlayerState \<Rightarrow> TimeControlConfig \<Rightarrow> int \<Rightarrow> OvertimeBranch option" where
  "tick_branch state config deltaMs =
     map_option (\<lambda>(s', d'). tickOvertime_branch s' config) (tick_overtime_call state config deltaMs)"

section \<open>The driver's use of the engine\<close>

text \<open>
  The driver threads one player state through a sequence of \<open>tick\<close> and \<open>onMove\<close> calls,
  starting from \<open>createInitialPlayerState\<close>. \<open>expiry_reported\<close> tells whether some tick of
  the sequence returned \<open>expired = true\<close>.
\<close>

datatype event = Tick int | Move

fun apply_event :: "TimeControlConfig \<Rightarrow> PlayerState \<Rightarrow> event \<Rightarrow> PlayerState" where
  "apply_event config state (Tick deltaMs) = newState (tick state config deltaMs)"
| "apply_event config state Move = onMove state config"

fun run_from :: "TimeControlConfig \<Rightarrow> PlayerState \<Rightarrow> event list \<Rightarrow> PlayerState" where
  "run_from config state [] = state"
| "run_from config state (e # es) = run_from config (apply_event config state e) es"

definition run :: "TimeControlConfig \<Rightarrow> event list \<Rightarrow> PlayerState" where
  "run config es = run_from config (createInitialPlayerState config) es"

fun expiry_reported_from :: "TimeControlConfig \<Rightarrow> PlayerState \<Rightarrow> event list \<Rightarrow> bool" where
  "expiry_reported_from config state [] = False"
| "expiry_reported_from config state (Tick deltaMs # es) =
     (expired (tick state config deltaMs)
      \<or> expiry_reported_from config (newState (tick state config deltaMs)) es)"
| "expiry_reported_from config state (Move # es) =
     expiry_reported_from config (onMove state config) es"

definition expiry_reported :: "TimeControlConfig \<Rightarrow> event list \<Rightarrow> bool" where
  "expiry_reported config es = expiry_reported_from config (createInitialPlayerState config) es"

section \<open>Specification predicates\<close>

text \<open>
  \<open>all_spent T k x\<close>: starting from the remainder \<open>x\<close>, each of the next \<open>k\<close> periods of
  length \<open>T\<close> is overrun, that is \<open>x + j * T \<le> 0\<close> for \<open>j = 0, \<dots>, k - 1\<close>.
\<close>

definition all_spent :: "int \<Rightarrow> int \<Rightarrow> int \<Rightarrow> bool" where
  "all_spent T k x = list_all (\<lambda>j. x + j * T \<le> 0) [0..k - 1]"

text \<open>The constraints on a configuration (data model, section 3 of the specification).\<close>

fun valid_config :: "TimeControlConfig \<Rightarrow> bool" where
  "valid_config (ByoYomiConfig m p pt) = (0 \<le> m \<and> 0 \<le> p \<and> 0 < pt)"
| "valid_config (CanadianConfig m st ot) = (0 \<le> m \<and> 1 \<le> st \<and> 0 < ot)"
| "valid_config (FischerConfig m inc) = (0 \<le> m \<and> 0 \<le> inc)"

text \<open>
  The invariants of a player clock state: no negative time or count; a state in overtime
  has spent its main time and carries the overtime variant of its scheme (none for Fischer).
\<close>

fun overtime_nonneg :: "OvertimeState option \<Rightarrow> bool" where
  "overtime_nonneg None = True"
| "overtime_nonneg (Some (ByoYomiOvertime P R)) = (0 \<le> P \<and> 0 \<le> R)"
| "overtime_nonneg (Some (CanadianOvertime S R)) = (0 \<le> S \<and> 0 \<le> R)"

fun overtime_matches :: "TimeControlConfig \<Rightarrow> OvertimeState option \<Rightarrow> bool" where
  "overtime_matches (ByoYomiConfig m p pt) (Some (ByoYomiOvertime P R)) = True"
| "overtime_matches (CanadianConfig m st ot) (Some (CanadianOvertime S R)) = True"
| "overtime_matches (FischerConfig m inc) None = True"
| "overtime_matches config ot = False"

definition state_inv :: "TimeControlConfig \<Rightarrow> PlayerState \<Rightarrow> bool" where
  "state_inv config state =
     (0 \<le> mainTimeRemainingMs state \<and> 0 \<le> moves state \<and> overtime_nonneg (overtime state) \<and>
      (isInOvertime state \<longrightarrow>
         mainTimeRemainingMs state = 0 \<and> overtime_matches config (overtime state)))"

text \<open>
  \<open>clock_running config state\<close>: the counter the clock is currently running on is strictly
  positive (main time outside overtime; inside, the period time with a period left for
  byo-yomi, the overtime block for Canadian; a Fischer state in overtime has no counter).
\<close>

fun clock_running :: "TimeControlConfig \<Rightarrow> PlayerState \<Rightarrow> bool" where
  "clock_running (ByoYomiConfig m p pt) s =
     (if isInOvertime s
      then (case overtime s of Some (ByoYomiOvertime P R) \<Rightarrow> 0 < P \<and> 0 < R | _ \<Rightarrow> True)
      else 0 < mainTimeRemainingMs s)"
| "clock_running (CanadianConfig m st ot) s =
     (if isInOvertime s
      then (case overtime s of Some (CanadianOvertime S R) \<Rightarrow> 0 < R | _ \<Rightarrow> True)
      else 0 < mainTimeRemainingMs s)"
| "clock_running (FischerConfig m inc) s =
     (\<not> isInOvertime s \<and> 0 < mainTimeRemainingMs s)"

text \<open>
  The formatting contract in the specification's words: the seconds are the ceiling of
  \<open>ms / 1000\<close>, clamped at 0; minutes and seconds on two digits; hours only when positive.
  \<open>decimal_value\<close> reads a digit string back.
\<close>

definition two_digits :: "nat \<Rightarrow> string" where
  "two_digits n = [digit_char (n div 10), digit_char (n mod 10)]"

definition spec_formatTime :: "int \<Rightarrow> string" where
  "spec_formatTime ms =
     (let total = nat (max 0 \<lceil>real_of_int ms / 1000\<rceil>);
          h = total div 3600;
          m = (total div 60) mod 60;
          s = total mod 60
      in if 0 < h
         then toString_nat h @ '':'' @ two_digits m @ '':'' @ two_digits s
         else toString_nat m @ '':'' @ two_digits s)"

fun digit_value :: "char \<Rightarrow> nat" where
  "digit_value c = of_char c - 48"

definition decimal_value :: "string \<Rightarrow> nat" where
  "decimal_value str = foldl (\<lambda>acc c. 10 * acc + digit_value c) 0 str"

section \<open>The byo-yomi loop\<close>

lemma loop_stop:
  assumes "\<not> (R \<le> 0 \<and> P > 0)"
  shows "tickOvertime_loop T P R = (P, R)"
  by (subst tickOvertime_loop.simps) (rule if_not_P[OF assms])

lemma loop_step:
  assumes "R \<le> 0" and "P > 0"
  shows "tickOvertime_loop T P R =
         tickOvertime_loop T (P - 1) (if P - 1 > 0 then R + T else R)"
  by (subst tickOvertime_loop.simps) (rule if_P[OF conjI[OF assms]])

lemma loop_last:
  assumes "R \<le> 0"
  shows "tickOvertime_loop T 1 R = (0, R)"
proof -
  have "tickOvertime_loop T 1 R = tickOvertime_loop T 0 R"
    using assms by (subst tickOvertime_loop.simps) simp
  also have "\<dots> = (0, R)"
    by (rule loop_stop) simp
  finally show ?thesis .
qed

lemma all_spent_iff: "all_spent T k x \<longleftrightarrow> (\<forall>j. 0 \<le> j \<and> j < k \<longrightarrow> x + j * T \<le> 0)"
  unfolding all_spent_def list_all_iff by auto

lemma all_spent_zero: "k \<le> 0 \<Longrightarrow> all_spent T k x"
  by (simp add: all_spent_iff)

lemma all_spent_one:
  assumes "x \<le> 0"
  shows "all_spent T 1 x"
  unfolding all_spent_iff
proof (intro allI impI)
  fix j :: int
  assume "0 \<le> j \<and> j < 1"
  then have "j = 0" by linarith
  then show "x + j * T \<le> 0" using assms by simp
qed

lemma all_spent_shift:
  assumes "x \<le> 0" and "all_spent T k (x + T)"
  shows "all_spent T (k + 1) x"
  unfolding all_spent_iff
proof (intro allI impI)
  fix j :: int
  assume j: "0 \<le> j \<and> j < k + 1"
  show "x + j * T \<le> 0"
  proof (cases "j = 0")
    case True
    then show ?thesis using assms(1) by simp
  next
    case False
    then have "0 \<le> j - 1 \<and> j - 1 < k" using j by linarith
    then have "(x + T) + (j - 1) * T \<le> 0" using assms(2) unfolding all_spent_iff by blast
    moreover have "(x + T) + (j - 1) * T = x + j * T" by (simp add: algebra_simps)
    ultimately show ?thesis by (simp only:)
  qed
qed

lemma loop_alive:
  "tickOvertime_loop T P R = (P', R') \<Longrightarrow> P' > 0 \<Longrightarrow>
     P' \<le> P \<and> R' > 0 \<and> R' = R + (P - P') * T \<and> all_spent T (P - P') R"
proof (induction T P R rule: tickOvertime_loop.induct)
  case (1 T P R)
  note res = \<open>tickOvertime_loop T P R = (P', R')\<close>
  note pos = \<open>P' > 0\<close>
  show ?case
  proof (cases "R \<le> 0 \<and> P > 0")
    case False
    have "(P', R') = (P, R)"
      using res[symmetric] loop_stop[OF False, of T] by (rule trans)
    then have e: "P' = P" "R' = R" by blast+
    have "R > 0" using False pos e(1) by linarith
    moreover have "all_spent T (P - P) R" by (rule all_spent_zero) simp
    ultimately show ?thesis unfolding e by simp
  next
    case True
    then have R: "R \<le> 0" and P: "P > 0" by blast+
    have "P \<noteq> 1"
    proof
      assume "P = 1"
      then have "tickOvertime_loop T P R = (0, R)" using loop_last[OF R, of T] by blast
      with res[symmetric] have "(P', R') = (0, R)" by (rule trans)
      then have "P' = 0" by blast
      then show False using pos by linarith
    qed
    then have P1: "0 < P - 1" using P by linarith
    have "tickOvertime_loop T P R =
          tickOvertime_loop T (P - 1) (if 0 < P - 1 then R + T else R)"
      using R P by (rule loop_step)
    from this[symmetric] res
    have "tickOvertime_loop T (P - 1) (if 0 < P - 1 then R + T else R) = (P', R')"
      by (rule trans)
    from "1.IH"[OF True this pos]
    have IH: "P' \<le> P - 1 \<and> R' > 0 \<and> R' = (R + T) + (P - 1 - P') * T
              \<and> all_spent T (P - 1 - P') (R + T)"
      unfolding if_P[OF P1] .
    then have "all_spent T (P - 1 - P') (R + T)" by blast
    with R have "all_spent T ((P - 1 - P') + 1) R" by (rule all_spent_shift)
    moreover have "(P - 1 - P') + 1 = P - P'" by linarith
    ultimately have sp: "all_spent T (P - P') R" by (simp only:)
    have "R' = (R + T) + (P - 1 - P') * T" using IH by blast
    also have "\<dots> = R + (P - P') * T" by (simp add: algebra_simps)
    finally have eq: "R' = R + (P - P') * T" .
    have "P' \<le> P" "R' > 0" using IH by linarith+
    with sp eq show ?thesis by blast
  qed
qed

lemma loop_dead:
  "tickOvertime_loop T P R = (P', R') \<Longrightarrow> P > 0 \<Longrightarrow> P' \<le> 0 \<Longrightarrow>
     P' = 0 \<and> all_spent T P R"
proof (induction T P R rule: tickOvertime_loop.induct)
  case (1 T P R)
  note res = \<open>tickOvertime_loop T P R = (P', R')\<close>
  show ?case
  proof (cases "R \<le> 0 \<and> P > 0")
    case False
    have "(P', R') = (P, R)"
      using res[symmetric] loop_stop[OF False, of T] by (rule trans)
    then have "P' = P" by blast
    then show ?thesis using "1.prems"(2,3) by linarith
  next
    case True
    then have R: "R \<le> 0" and P: "P > 0" by blast+
    show ?thesis
    proof (cases "P = 1")
      case True
      then have "tickOvertime_loop T P R = (0, R)" using loop_last[OF R, of T] by blast
      with res[symmetric] have "(P', R') = (0, R)" by (rule trans)
      then have "P' = 0" by blast
      moreover have "all_spent T P R" unfolding True using R by (rule all_spent_one)
      ultimately show ?thesis by blast
    next
      case False
      then have P1: "0 < P - 1" using P by linarith
      have "tickOvertime_loop T P R =
            tickOvertime_loop T (P - 1) (if 0 < P - 1 then R + T else R)"
        using R P by (rule loop_step)
      from this[symmetric] res
      have "tickOvertime_loop T (P - 1) (if 0 < P - 1 then R + T else R) = (P', R')"
        by (rule trans)
      from "1.IH"[OF \<open>R \<le> 0 \<and> P > 0\<close> this P1 "1.prems"(3)]
      have IH: "P' = 0 \<and> all_spent T (P - 1) (R + T)"
        unfolding if_P[OF P1] .
      then have "all_spent T (P - 1) (R + T)" by blast
      with R have "all_spent T ((P - 1) + 1) R" by (rule all_spent_shift)
      moreover have "(P - 1) + 1 = P" by linarith
      ultimately have "all_spent T P R" by (simp only:)
      then show ?thesis using IH by blast
    qed
  qed
qed

section \<open>Ticking\<close>

lemma tickOvertime_byoyomi:
  assumes "overtime s = Some (ByoYomiOvertime P R)"
    and "tickOvertime_loop (pt * 1000) P (R - d) = (P', R')"
  shows "tickOvertime s (ByoYomiConfig m p pt) d =
           (s\<lparr>overtime := Some (ByoYomiOvertime P' (if P' \<le> 0 then 0 else R'))\<rparr>, P' \<le> 0)"
  using assms by simp

lemma tick_in_overtime:
  assumes "isInOvertime s"
  shows "tick s c d = \<lparr>newState = fst (tickOvertime s c d),
                        expired = snd (tickOvertime s c d), enteredOvertime = False\<rparr>"
  using assms by (simp add: tick_def split: prod.splits)

lemma tick_main_time:
  assumes "\<not> isInOvertime s" and "0 < mainTimeRemainingMs s - d"
  shows "tick s c d = \<lparr>newState = s\<lparr>mainTimeRemainingMs := mainTimeRemainingMs s - d\<rparr>,
                        expired = False, enteredOvertime = False\<rparr>"
  using assms by (simp add: tick_def)

lemma tick_entering_some:
  assumes "\<not> isInOvertime s" and "mainTimeRemainingMs s - d \<le> 0"
    and "createOvertimeState c = Some ot"
  shows "tick s c d =
           \<lparr>newState = fst (tickOvertime (enter_overtime s c) c (d - mainTimeRemainingMs s)),
            expired = snd (tickOvertime (enter_overtime s c) c (d - mainTimeRemainingMs s)),
            enteredOvertime = True\<rparr>"
  using assms by (simp add: tick_def enter_overtime_def Let_def split: prod.splits)

lemma tick_entering_none:
  assumes "\<not> isInOvertime s" and "mainTimeRemainingMs s - d \<le> 0"
    and "createOvertimeState c = None"
  shows "tick s c d = \<lparr>newState = enter_overtime s c, expired = True, enteredOvertime = True\<rparr>"
  using assms by (simp add: tick_def enter_overtime_def Let_def)

lemma upd_overtime_same: "(s\<lparr>overtime := x\<rparr> = s) = (overtime s = x)" for s :: PlayerState
  by (cases s) auto

lemma tick_zero_byoyomi_overtime:
  assumes "isInOvertime s" and "overtime s = Some (ByoYomiOvertime P R)"
  shows "tick s (ByoYomiConfig m p pt) 0 = \<lparr>newState = s, expired = False, enteredOvertime = False\<rparr>
         \<longleftrightarrow> 0 < P \<and> 0 < R"
proof -
  obtain P0 R0 where loop: "tickOvertime_loop (pt * 1000) P (R - 0) = (P0, R0)"
    by (cases "tickOvertime_loop (pt * 1000) P (R - 0)") blast
  have res: "tick s (ByoYomiConfig m p pt) 0 =
       \<lparr>newState = s\<lparr>overtime := Some (ByoYomiOvertime P0 (if P0 \<le> 0 then 0 else R0))\<rparr>,
        expired = (P0 \<le> 0), enteredOvertime = False\<rparr>"
    using tickOvertime_byoyomi[OF assms(2) loop, of m p]
      tick_in_overtime[OF assms(1), of "ByoYomiConfig m p pt" 0] by simp
  show ?thesis
  proof (cases "0 < P \<and> 0 < R")
    case True
    then have "\<not> (R - 0 \<le> 0 \<and> P > 0)" by linarith
    from loop_stop[OF this, of "pt * 1000"] loop have "P0 = P" "R0 = R" by simp_all
    then show ?thesis using True res assms(2) by (simp add: upd_overtime_same)
  next
    case False
    have "\<not> (0 < P0 \<and> overtime s = Some (ByoYomiOvertime P0 R0))"
    proof
      assume a: "0 < P0 \<and> overtime s = Some (ByoYomiOvertime P0 R0)"
      then have e: "P0 = P" "R0 = R" using assms(2) by simp_all
      from loop_alive[OF loop] a have "0 < R0" by blast
      then show False using a e False by linarith
    qed
    then show ?thesis using False res by (auto simp: upd_overtime_same)
  qed
qed

lemma tick_zero_main:
  assumes "\<not> isInOvertime s"
  shows "tick s c 0 = \<lparr>newState = s, expired = False, enteredOvertime = False\<rparr>
         \<longleftrightarrow> 0 < mainTimeRemainingMs s"
proof (cases "0 < mainTimeRemainingMs s")
  case True
  then show ?thesis using tick_main_time[OF assms, of 0 c] by simp
next
  case False
  then have "enteredOvertime (tick s c 0)" using assms
    by (simp add: tick_def Let_def split: option.splits prod.splits)
  then show ?thesis using False by auto
qed

lemma tick_zero_canadian_overtime:
  assumes "isInOvertime s" and "overtime s = Some (CanadianOvertime S R)"
  shows "tick s (CanadianConfig m st ot) 0 = \<lparr>newState = s, expired = False, enteredOvertime = False\<rparr>
         \<longleftrightarrow> 0 < R"
  using assms by (auto simp: tick_def upd_overtime_same)

lemma tick_cross_eq_enter_then_tick:
  assumes "\<not> isInOvertime s" and "mainTimeRemainingMs s \<le> d"
  shows "tick s c d = (tick (enter_overtime s c) c (d - mainTimeRemainingMs s))\<lparr>enteredOvertime := True\<rparr>"
proof (cases "createOvertimeState c")
  case None
  then obtain m inc where c: "c = FischerConfig m inc" by (cases c) simp_all
  have io: "isInOvertime (enter_overtime s c)" by (simp add: enter_overtime_def)
  show ?thesis
    using tick_entering_none[OF assms(1) _ None, of d] assms(2)
      tick_in_overtime[OF io, of c "d - mainTimeRemainingMs s"] c
    by simp
next
  case (Some ot)
  have io: "isInOvertime (enter_overtime s c)" by (simp add: enter_overtime_def)
  show ?thesis
    using tick_entering_some[OF assms(1) _ Some, of d] assms(2)
      tick_in_overtime[OF io, of c "d - mainTimeRemainingMs s"]
    by simp
qed

section \<open>Invariant preservation\<close>

lemma loop_periods_nonneg:
  assumes "tickOvertime_loop T P R = (P', R')" and "0 \<le> P"
  shows "0 \<le> P'"
proof (cases "0 < P")
  case False
  then have "\<not> (R \<le> 0 \<and> P > 0)" by linarith
  from loop_stop[OF this, of T] assms(1) have "P' = P" by simp
  then show ?thesis using assms(2) by linarith
next
  case True
  show ?thesis
  proof (cases "P' \<le> 0")
    case True
    with loop_dead[OF assms(1) \<open>0 < P\<close>] show ?thesis by linarith
  next
    case False
    then show ?thesis by linarith
  qed
qed

lemma tickOvertime_inv:
  assumes "valid_config c" and "overtime_nonneg (overtime s)" and "overtime_matches c (overtime s)"
  shows "overtime_nonneg (overtime (fst (tickOvertime s c d))) \<and>
         overtime_matches c (overtime (fst (tickOvertime s c d))) \<and>
         mainTimeRemainingMs (fst (tickOvertime s c d)) = mainTimeRemainingMs s \<and>
         moves (fst (tickOvertime s c d)) = moves s \<and>
         isInOvertime (fst (tickOvertime s c d)) = isInOvertime s"
proof (cases c)
  case (ByoYomiConfig m p pt)
  then obtain P R where ot: "overtime s = Some (ByoYomiOvertime P R)"
    using assms(3) by (cases "overtime s" rule: overtime_nonneg.cases) simp_all
  obtain P' R' where loop: "tickOvertime_loop (pt * 1000) P (R - d) = (P', R')"
    by (cases "tickOvertime_loop (pt * 1000) P (R - d)") blast
  have "0 \<le> P" using assms(2) ot by simp
  with loop have P': "0 \<le> P'" by (rule loop_periods_nonneg)
  have "0 < P' \<longrightarrow> 0 < R'" using loop_alive[OF loop] by blast
  then show ?thesis
    using tickOvertime_byoyomi[OF ot loop, of m p] P' ByoYomiConfig by auto
next
  case (CanadianConfig m st ot)
  then obtain S R where ot: "overtime s = Some (CanadianOvertime S R)"
    using assms(3) by (cases "overtime s" rule: overtime_nonneg.cases) simp_all
  then show ?thesis using assms(2) CanadianConfig by simp
next
  case (FischerConfig m inc)
  then show ?thesis using assms(2,3) by simp
qed

lemma enter_overtime_inv:
  assumes "valid_config c"
  shows "overtime_nonneg (createOvertimeState c) \<and> overtime_matches c (createOvertimeState c)"
  using assms by (cases c) simp_all

lemma tick_preserves_inv:
  assumes "valid_config c" and "state_inv c s"
  shows "state_inv c (newState (tick s c d))"
proof (cases "isInOvertime s")
  case True
  then have a: "overtime_nonneg (overtime s)" "overtime_matches c (overtime s)"
    using assms(2) by (simp_all add: state_inv_def)
  show ?thesis
    using tickOvertime_inv[OF assms(1) a, of d] tick_in_overtime[OF True, of c d] assms(2) True
    by (simp add: state_inv_def)
next
  case False
  show ?thesis
  proof (cases "0 < mainTimeRemainingMs s - d")
    case True
    then show ?thesis using tick_main_time[OF False True, of c] assms(2) False
      by (simp add: state_inv_def)
  next
    case neg: False
    then have le: "mainTimeRemainingMs s - d \<le> 0" by linarith
    show ?thesis
    proof (cases "createOvertimeState c")
      case None
      then show ?thesis
        using tick_entering_none[OF False le None] enter_overtime_inv[OF assms(1)] assms(2)
        by (simp add: state_inv_def enter_overtime_def)
    next
      case (Some ot)
      have a: "overtime_nonneg (overtime (enter_overtime s c))"
        "overtime_matches c (overtime (enter_overtime s c))"
        using enter_overtime_inv[OF assms(1)] by (simp_all add: enter_overtime_def)
      show ?thesis
        using tickOvertime_inv[OF assms(1) a, of "d - mainTimeRemainingMs s"]
          tick_entering_some[OF False le Some] assms(2)
        by (simp add: state_inv_def enter_overtime_def)
    qed
  qed
qed

lemma onMove_preserves_inv:
  assumes "valid_config c" and "state_inv c s"
  shows "state_inv c (onMove s c)"
proof (cases c)
  case (ByoYomiConfig m p pt)
  then show ?thesis using assms
    by (cases "overtime s" rule: overtime_nonneg.cases) (simp_all add: state_inv_def Let_def)
next
  case (CanadianConfig m st ot)
  then show ?thesis using assms
    by (cases "overtime s" rule: overtime_nonneg.cases) (simp_all add: state_inv_def Let_def)
next
  case (FischerConfig m inc)
  then show ?thesis using assms
    by (cases "overtime s" rule: overtime_nonneg.cases) (simp_all add: state_inv_def Let_def)
qed

section \<open>Control flow under Fischer\<close>

text \<open>
  The recorded control flow agrees with the functions: \<open>tick\<close> returns what the recorded
  call to \<open>tickOvertime\<close> returns, and the arms that do not touch the overtime state return
  the state as it is.
\<close>

lemma tick_overtime_call_sound:
  "tick s c d =
     (case tick_overtime_call s c d of
        Some (s', d') \<Rightarrow> \<lparr>newState = fst (tickOvertime s' c d'),
                          expired = snd (tickOvertime s' c d'),
                          enteredOvertime = (\<not> isInOvertime s)\<rparr>
      | None \<Rightarrow>
          if mainTimeRemainingMs s - d \<le> 0
          then \<lparr>newState = enter_overtime s c, expired = True, enteredOvertime = True\<rparr>
          else \<lparr>newState = s\<lparr>mainTimeRemainingMs := mainTimeRemainingMs s - d\<rparr>,
                expired = False, enteredOvertime = False\<rparr>)"
  by (simp add: tick_def tick_overtime_call_def enter_overtime_def Let_def
           split: option.splits prod.splits)

lemma tickOvertime_branch_sound:
  "tickOvertime_branch s c = FischerBranch \<Longrightarrow> tickOvertime s c d = (s, True)"
  "tickOvertime_branch s c = NoBranch \<Longrightarrow> tickOvertime s c d = (s, False)"
  by (cases c; simp split: option.splits OvertimeState.splits)+

lemma tick_branch_fischer:
  "tick_branch s (FischerConfig m inc) d = (if isInOvertime s then Some FischerBranch else None)"
  by (simp add: tick_branch_def tick_overtime_call_def Let_def)

lemma fischer_tick_overtime_flag:
  "isInOvertime (newState (tick s (FischerConfig m inc) d)) = expired (tick s (FischerConfig m inc) d)"
  "isInOvertime s \<Longrightarrow> expired (tick s (FischerConfig m inc) d)"
  by (simp_all add: tick_def Let_def)

lemma fischer_onMove_flag: "isInOvertime (onMove s (FischerConfig m inc)) = isInOvertime s"
  by (simp add: Let_def)

lemma fischer_overtime_iff_expiry:
  "isInOvertime (run_from (FischerConfig m inc) s es) \<longleftrightarrow>
     isInOvertime s \<or> expiry_reported_from (FischerConfig m inc) s es"
proof (induction es arbitrary: s)
  case Nil
  show ?case by simp
next
  case (Cons e es)
  show ?case
  proof (cases e)
    case (Tick d)
    then show ?thesis
      using Cons.IH[of "newState (tick s (FischerConfig m inc) d)"]
        fischer_tick_overtime_flag[of s m inc d]
      by auto
  next
    case Move
    then show ?thesis
      using Cons.IH[of "onMove s (FischerConfig m inc)"] fischer_onMove_flag[of s m inc]
      by simp
  qed
qed

section \<open>Formatting\<close>

lemma Math_ceil_div_ceiling: "Math_ceil_div ms 1000 = \<lceil>real_of_int ms / 1000\<rceil>"
  using ceiling_divide_eq_div[of ms 1000, where ?'a = real] by (simp add: Math_ceil_div_def)

lemma digit_char_0: "digit_char 0 = CHR ''0''"
  by (simp add: digit_char_def)

lemma toString_nat_small: "n < 10 \<Longrightarrow> toString_nat n = [digit_char n]"
  by (subst toString_nat.simps) simp

lemma toString_nat_two: 
  assumes "10 \<le> n" and "n < 100"
  shows "toString_nat n = [digit_char (n div 10), digit_char (n mod 10)]"
proof -
  have "n div 10 < 10" using assms(2) by simp
  then have "toString_nat (n div 10) = [digit_char (n div 10)]" by (rule toString_nat_small)
  moreover have "toString_nat n = toString_nat (n div 10) @ [digit_char (n mod 10)]"
    using assms(1) by (subst toString_nat.simps) simp
  ultimately show ?thesis by simp
qed

lemma padStart_two_digits:
  assumes "n < 100"
  shows "padStart (toString_nat n) 2 CHR ''0'' = two_digits n"
proof (cases "n < 10")
  case True
  then show ?thesis
    by (simp add: padStart_def toString_nat_small two_digits_def digit_char_0)
next
  case False
  then have "10 \<le> n" by simp
  from toString_nat_two[OF this assms] show ?thesis
    by (simp add: padStart_def two_digits_def)
qed

lemma toString_nonneg: "0 \<le> n \<Longrightarrow> toString n = toString_nat (nat n)"
  by (simp add: toString_def)

lemma js_rem_nonneg: "0 \<le> a \<Longrightarrow> 0 < b \<Longrightarrow> js_rem a b = a mod b"
  by (simp add: js_rem_def)

lemma minutes_alt: "t mod 3600 div 60 = (t div 60) mod (60::nat)"
proof -
  have "t mod (60 * 60) = 60 * (t div 60 mod 60) + t mod 60"
    by (rule mod_mult2_eq)
  then have "t mod 3600 div 60 = (60 * (t div 60 mod 60) + t mod 60) div 60" by simp
  also have "\<dots> = t div 60 mod 60" by simp
  finally show ?thesis .
qed

lemma formatTime_nat:
  assumes "max 0 (Math_ceil_div ms 1000) = int t"
  shows "formatTime ms =
        (if 0 < t div 3600
         then toString_nat (t div 3600) @ '':'' @ two_digits ((t div 60) mod 60) @ '':''
              @ two_digits (t mod 60)
         else toString_nat ((t div 60) mod 60) @ '':'' @ two_digits (t mod 60))"
proof -
  have h: "int t div 3600 = int (t div 3600)" by (simp add: zdiv_int)
  have "js_rem (int t) 3600 = int t mod 3600" by (rule js_rem_nonneg) simp_all
  also have "\<dots> = int (t mod 3600)" by (simp add: zmod_int)
  finally have "js_rem (int t) 3600 div 60 = int (t mod 3600 div 60)" by (simp add: zdiv_int)
  then have m: "js_rem (int t) 3600 div 60 = int ((t div 60) mod 60)"
    by (simp only: minutes_alt)
  have "js_rem (int t) 60 = int t mod 60" by (rule js_rem_nonneg) simp_all
  then have s: "js_rem (int t) 60 = int (t mod 60)" by (simp add: zmod_int)
  have ml: "(t div 60) mod 60 < 100" and sl: "t mod 60 < 100"
    using mod_less_divisor[of 60 "t div 60"] mod_less_divisor[of 60 t] by linarith+
  have p1: "padStart (toString (int ((t div 60) mod 60))) 2 CHR ''0'' = two_digits ((t div 60) mod 60)"
    using padStart_two_digits[OF ml] by (simp add: toString_nonneg)
  have p2: "padStart (toString (int (t mod 60))) 2 CHR ''0'' = two_digits (t mod 60)"
    using padStart_two_digits[OF sl] by (simp add: toString_nonneg)
  have t1: "toString (int (t div 3600)) = toString_nat (t div 3600)"
    by (simp add: toString_nonneg)
  have t2: "toString (int ((t div 60) mod 60)) = toString_nat ((t div 60) mod 60)"
    by (simp add: toString_nonneg)
  have c: "(0 < int (t div 3600)) = (0 < t div 3600)" by simp
  show ?thesis
    unfolding formatTime_def Let_def assms h m s p1 p2 t1 t2 c
      padStart_two_digits[OF ml] padStart_two_digits[OF sl] ..
qed

lemma digits_table:
  "list_all (\<lambda>n. digit_value (digit_char n) = n \<and> (0 < n \<longrightarrow> digit_char n \<noteq> CHR ''0'')) [0..<10]"
  by code_simp

lemma digit_value_digit_char:
  assumes "n < 10"
  shows "digit_value (digit_char n) = n"
proof -
  have "n \<in> set [0..<10]" using assms by simp
  with digits_table show ?thesis unfolding list_all_iff by blast
qed

lemma digit_char_nonzero:
  assumes "0 < n" and "n < 10"
  shows "digit_char n \<noteq> CHR ''0''"
proof -
  have "n \<in> set [0..<10]" using assms(2) by simp
  with digits_table assms(1) show ?thesis unfolding list_all_iff by blast
qed

lemma toString_nat_nonempty: "toString_nat n \<noteq> []"
  by (subst toString_nat.simps) simp

lemma decimal_value_snoc:
  "decimal_value (str @ [c]) = 10 * decimal_value str + digit_value c"
  by (simp add: decimal_value_def)

lemma decimal_value_toString_nat: "decimal_value (toString_nat n) = n"
proof (induction n rule: toString_nat.induct)
  case (1 n)
  show ?case
  proof (cases "n < 10")
    case True
    then have "toString_nat n = [digit_char n]" by (rule toString_nat_small)
    then show ?thesis using digit_value_digit_char[OF True] by (simp add: decimal_value_def)
  next
    case False
    then have e: "toString_nat n = toString_nat (n div 10) @ [digit_char (n mod 10)]"
      by (subst toString_nat.simps) simp
    have "n mod 10 < 10" by simp
    then have d: "digit_value (digit_char (n mod 10)) = n mod 10" by (rule digit_value_digit_char)
    have "decimal_value (toString_nat n) = 10 * (n div 10) + n mod 10"
      unfolding e decimal_value_snoc d "1.IH"[OF False] ..
    then show ?thesis by simp
  qed
qed

lemma toString_nat_no_leading_zero:
  "0 < n \<Longrightarrow> hd (toString_nat n) \<noteq> CHR ''0''"
proof (induction n rule: toString_nat.induct)
  case (1 n)
  show ?case
  proof (cases "n < 10")
    case True
    then have "toString_nat n = [digit_char n]" by (rule toString_nat_small)
    then show ?thesis using digit_char_nonzero[OF "1.prems" True] by simp
  next
    case False
    then have e: "toString_nat n = toString_nat (n div 10) @ [digit_char (n mod 10)]"
      by (subst toString_nat.simps) simp
    have "0 < n div 10" using False by simp
    from "1.IH"[OF False this] show ?thesis
      unfolding e using toString_nat_nonempty[of "n div 10"] by simp
  qed
qed

section \<open>The claims\<close>

subsection \<open>C1: a tick by zero\<close>

text \<open>
  C1 (as amended). For every configuration and every player clock state,
  \<open>tick(state, config, 0)\<close> returns the input state with \<open>expired = false\<close> and
  \<open>enteredOvertime = false\<close> exactly when the counter the clock is running on is strictly
  positive: main time outside overtime; inside overtime, \<open>periodsRemaining\<close> and
  \<open>periodTimeRemainingMs\<close> under byo-yomi, \<open>overtimeRemainingMs\<close> under Canadian (a byo-yomi
  or Canadian state in overtime that carries no overtime state of its scheme is returned
  unchanged too). In every other case, which includes every Fischer state in overtime, the
  result is not that no-op: the returned state or one of the two flags differs.
\<close>

theorem tick_zero_iff:
  "tick s c 0 = \<lparr>newState = s, expired = False, enteredOvertime = False\<rparr> \<longleftrightarrow> clock_running c s"
proof (cases "isInOvertime s")
  case False
  then show ?thesis using tick_zero_main[OF False, of c] by (cases c) simp_all
next
  case True
  show ?thesis
  proof (cases c)
    case (ByoYomiConfig m p pt)
    show ?thesis
    proof (cases "overtime s")
      case None
      then show ?thesis using True ByoYomiConfig by (simp add: tick_def)
    next
      case (Some ot)
      then show ?thesis
      proof (cases ot)
        case (ByoYomiOvertime P R)
        then show ?thesis
          using tick_zero_byoyomi_overtime[OF True, of P R m p pt] True Some ByoYomiConfig by simp
      next
        case (CanadianOvertime S R)
        then show ?thesis using True Some ByoYomiConfig by (simp add: tick_def)
      qed
    qed
  next
    case (CanadianConfig m st ot)
    show ?thesis
    proof (cases "overtime s")
      case None
      then show ?thesis using True CanadianConfig by (simp add: tick_def)
    next
      case (Some ov)
      then show ?thesis
      proof (cases ov)
        case (ByoYomiOvertime P R)
        then show ?thesis using True Some CanadianConfig by (simp add: tick_def)
      next
        case (CanadianOvertime S R)
        then show ?thesis
          using tick_zero_canadian_overtime[OF True, of S R m st ot] True Some CanadianConfig by simp
      qed
    qed
  next
    case (FischerConfig m inc)
    then show ?thesis using True by (simp add: tick_def)
  qed
qed

text \<open>
  Instances of C1: a byo-yomi overtime state with 25 seconds left is returned unchanged;
  the initial state of a Fischer game with no main time is not.
\<close>

theorem tick_zero_iff_witness:
  "clock_running (ByoYomiConfig 60 3 30)
     \<lparr>mainTimeRemainingMs = 0, overtime = Some (ByoYomiOvertime 3 25000), moves = 2,
      isInOvertime = True\<rparr>
   \<and> tick \<lparr>mainTimeRemainingMs = 0, overtime = Some (ByoYomiOvertime 3 25000), moves = 2,
           isInOvertime = True\<rparr> (ByoYomiConfig 60 3 30) 0
     = \<lparr>newState = \<lparr>mainTimeRemainingMs = 0, overtime = Some (ByoYomiOvertime 3 25000),
                      moves = 2, isInOvertime = True\<rparr>,
        expired = False, enteredOvertime = False\<rparr>
   \<and> \<not> clock_running (FischerConfig 0 10) (createInitialPlayerState (FischerConfig 0 10))
   \<and> tick (createInitialPlayerState (FischerConfig 0 10)) (FischerConfig 0 10) 0
     \<noteq> \<lparr>newState = createInitialPlayerState (FischerConfig 0 10),
         expired = False, enteredOvertime = False\<rparr>"
  using tick_zero_iff[of "\<lparr>mainTimeRemainingMs = 0, overtime = Some (ByoYomiOvertime 3 25000),
                          moves = 2, isInOvertime = True\<rparr>" "ByoYomiConfig 60 3 30"]
    tick_zero_iff[of "createInitialPlayerState (FischerConfig 0 10)" "FischerConfig 0 10"]
  by (simp add: createInitialPlayerState_def)

text \<open>
  C1 as stated fails: an expired byo-yomi state (no period left) ticked by 0 reports
  \<open>expired = true\<close>, and the initial state of a game configured with \<open>mainTimeSeconds = 0\<close>
  ticked by 0 enters overtime (and, under Fischer, expires).
\<close>

theorem tick_zero_counterexample:
  "tick \<lparr>mainTimeRemainingMs = 0, overtime = Some (ByoYomiOvertime 0 0), moves = 0,
         isInOvertime = True\<rparr> (ByoYomiConfig 60 3 30) 0
   = \<lparr>newState = \<lparr>mainTimeRemainingMs = 0, overtime = Some (ByoYomiOvertime 0 0), moves = 0,
                    isInOvertime = True\<rparr>,
      expired = True, enteredOvertime = False\<rparr>
   \<and> tick (createInitialPlayerState (FischerConfig 0 10)) (FischerConfig 0 10) 0
   = \<lparr>newState = \<lparr>mainTimeRemainingMs = 0, overtime = None, moves = 0, isInOvertime = True\<rparr>,
      expired = True, enteredOvertime = True\<rparr>
   \<and> createInitialPlayerState (FischerConfig 0 10)
   = \<lparr>mainTimeRemainingMs = 0, overtime = None, moves = 0, isInOvertime = False\<rparr>"
  by (simp add: tick_def createInitialPlayerState_def loop_stop)

subsection \<open>C2: main-time and overflow conservation\<close>

text \<open>
  C2 (as amended). For every state not in overtime: (1) while
  \<open>mainTimeRemainingMs - deltaMs > 0\<close>, tick decreases \<open>mainTimeRemainingMs\<close> by exactly
  \<open>deltaMs\<close>, with no overtime entry and no expiry; (2) for every \<open>deltaMs \<ge> mainTimeRemainingMs\<close>
  the tick equals entering overtime with a fresh counter and ticking that state by exactly
  \<open>overflow = deltaMs - mainTimeRemainingMs\<close>, in the same call; (3) under byo-yomi with at least
  one period, and under Canadian, when the overflow is smaller than the fresh counter, the
  counter is left at its fresh value minus exactly the overflow and the player has not
  expired. (An overflow that reaches the fresh counter starts the byo-yomi cascade of C3 or
  the Canadian clamp of C9 instead.)
\<close>

theorem tick_main_time_conservation:
  assumes "\<not> isInOvertime s"
  shows "(0 < mainTimeRemainingMs s - d \<longrightarrow>
            tick s c d = \<lparr>newState = s\<lparr>mainTimeRemainingMs := mainTimeRemainingMs s - d\<rparr>,
                           expired = False, enteredOvertime = False\<rparr>) \<and>
         (mainTimeRemainingMs s \<le> d \<longrightarrow>
            tick s c d = (tick (enter_overtime s c) c (d - mainTimeRemainingMs s))
                           \<lparr>enteredOvertime := True\<rparr>) \<and>
         (mainTimeRemainingMs s \<le> d \<and> 1 \<le> p \<and> d - mainTimeRemainingMs s < pt * 1000 \<longrightarrow>
            tick s (ByoYomiConfig m p pt) d =
              \<lparr>newState = s\<lparr>mainTimeRemainingMs := 0, isInOvertime := True,
                   overtime := Some (ByoYomiOvertime p (pt * 1000 - (d - mainTimeRemainingMs s)))\<rparr>,
               expired = False, enteredOvertime = True\<rparr>) \<and>
         (mainTimeRemainingMs s \<le> d \<and> d - mainTimeRemainingMs s < ot * 1000 \<longrightarrow>
            tick s (CanadianConfig m st ot) d =
              \<lparr>newState = s\<lparr>mainTimeRemainingMs := 0, isInOvertime := True,
                   overtime := Some (CanadianOvertime st (ot * 1000 - (d - mainTimeRemainingMs s)))\<rparr>,
               expired = False, enteredOvertime = True\<rparr>)"
proof (intro conjI impI)
  assume "0 < mainTimeRemainingMs s - d"
  with assms show "tick s c d = \<lparr>newState = s\<lparr>mainTimeRemainingMs := mainTimeRemainingMs s - d\<rparr>,
                           expired = False, enteredOvertime = False\<rparr>"
    by (rule tick_main_time)
next
  assume "mainTimeRemainingMs s \<le> d"
  with assms show "tick s c d = (tick (enter_overtime s c) c (d - mainTimeRemainingMs s))
                           \<lparr>enteredOvertime := True\<rparr>"
    by (rule tick_cross_eq_enter_then_tick)
next
  assume a: "mainTimeRemainingMs s \<le> d \<and> 1 \<le> p \<and> d - mainTimeRemainingMs s < pt * 1000"
  define x where "x = pt * 1000 - (d - mainTimeRemainingMs s)"
  have "\<not> (x \<le> 0 \<and> p > 0)" using a by (simp add: x_def)
  then have loop: "tickOvertime_loop (pt * 1000) p x = (p, x)" by (rule loop_stop)
  have ot: "overtime (enter_overtime s (ByoYomiConfig m p pt)) = Some (ByoYomiOvertime p (pt * 1000))"
    by (simp add: enter_overtime_def)
  have "tickOvertime (enter_overtime s (ByoYomiConfig m p pt)) (ByoYomiConfig m p pt)
          (d - mainTimeRemainingMs s) =
        ((enter_overtime s (ByoYomiConfig m p pt))\<lparr>overtime := Some (ByoYomiOvertime p x)\<rparr>, False)"
    using tickOvertime_byoyomi[OF ot loop[unfolded x_def], of m p] a by (simp add: x_def)
  then show "tick s (ByoYomiConfig m p pt) d =
              \<lparr>newState = s\<lparr>mainTimeRemainingMs := 0, isInOvertime := True,
                   overtime := Some (ByoYomiOvertime p (pt * 1000 - (d - mainTimeRemainingMs s)))\<rparr>,
               expired = False, enteredOvertime = True\<rparr>"
    using tick_entering_some[OF assms, of d "ByoYomiConfig m p pt"] a
    by (simp add: enter_overtime_def x_def)
next
  assume a: "mainTimeRemainingMs s \<le> d \<and> d - mainTimeRemainingMs s < ot * 1000"
  then show "tick s (CanadianConfig m st ot) d =
              \<lparr>newState = s\<lparr>mainTimeRemainingMs := 0, isInOvertime := True,
                   overtime := Some (CanadianOvertime st (ot * 1000 - (d - mainTimeRemainingMs s)))\<rparr>,
               expired = False, enteredOvertime = True\<rparr>"
    using assms by (simp add: tick_def)
qed

text \<open>
  Instances of C2: a tick of 1000 on 60000 of main time; scenario B (500 of main time, a
  tick of 1000, byo-yomi 3 periods of 30 s) and the same under Canadian 25 stones in 300 s.
\<close>

theorem tick_main_time_conservation_witness:
  "tick \<lparr>mainTimeRemainingMs = 60000, overtime = None, moves = 0, isInOvertime = False\<rparr>
        (ByoYomiConfig 60 3 30) 1000
     = \<lparr>newState = \<lparr>mainTimeRemainingMs = 59000, overtime = None, moves = 0,
                      isInOvertime = False\<rparr>,
        expired = False, enteredOvertime = False\<rparr>
   \<and> tick \<lparr>mainTimeRemainingMs = 500, overtime = None, moves = 0, isInOvertime = False\<rparr>
        (ByoYomiConfig 60 3 30) 1000
     = \<lparr>newState = \<lparr>mainTimeRemainingMs = 0, overtime = Some (ByoYomiOvertime 3 29500),
                      moves = 0, isInOvertime = True\<rparr>,
        expired = False, enteredOvertime = True\<rparr>
   \<and> tick \<lparr>mainTimeRemainingMs = 500, overtime = None, moves = 0, isInOvertime = False\<rparr>
        (CanadianConfig 60 25 300) 1000
     = \<lparr>newState = \<lparr>mainTimeRemainingMs = 0, overtime = Some (CanadianOvertime 25 299500),
                      moves = 0, isInOvertime = True\<rparr>,
        expired = False, enteredOvertime = True\<rparr>"
  using tick_main_time_conservation
      [of "\<lparr>mainTimeRemainingMs = 60000, overtime = None, moves = 0, isInOvertime = False\<rparr>"
          1000 "ByoYomiConfig 60 3 30" 3 30 60 300 25]
    tick_main_time_conservation
      [of "\<lparr>mainTimeRemainingMs = 500, overtime = None, moves = 0, isInOvertime = False\<rparr>"
          1000 "ByoYomiConfig 60 3 30" 3 30 60 300 25]
  by (simp add: enter_overtime_def tick_def loop_stop)

text \<open>
  C2 as stated fails: with 500 of main time and a tick of 31000 (overflow 30500) under
  byo-yomi 3 x 30 s, a period is consumed and the counter is 29500, not 30000 - 30500; under
  Canadian 300 s a tick of 400000 clamps the counter to 0; and a tick of exactly the
  remaining main time reduces the fresh counter by zero.
\<close>

theorem tick_overflow_counterexample:
  "tick \<lparr>mainTimeRemainingMs = 500, overtime = None, moves = 0, isInOvertime = False\<rparr>
        (ByoYomiConfig 60 3 30) 31000
     = \<lparr>newState = \<lparr>mainTimeRemainingMs = 0, overtime = Some (ByoYomiOvertime 2 29500),
                      moves = 0, isInOvertime = True\<rparr>,
        expired = False, enteredOvertime = True\<rparr>
   \<and> (29500 :: int) \<noteq> 30 * 1000 - (31000 - 500)
   \<and> tick \<lparr>mainTimeRemainingMs = 500, overtime = None, moves = 0, isInOvertime = False\<rparr>
        (CanadianConfig 60 25 300) 400000
     = \<lparr>newState = \<lparr>mainTimeRemainingMs = 0, overtime = Some (CanadianOvertime 25 0),
                      moves = 0, isInOvertime = True\<rparr>,
        expired = True, enteredOvertime = True\<rparr>
   \<and> (0 :: int) \<noteq> 300 * 1000 - (400000 - 500)
   \<and> tick \<lparr>mainTimeRemainingMs = 1000, overtime = None, moves = 0, isInOvertime = False\<rparr>
        (ByoYomiConfig 60 3 30) 1000
     = \<lparr>newState = \<lparr>mainTimeRemainingMs = 0, overtime = Some (ByoYomiOvertime 3 30000),
                      moves = 0, isInOvertime = True\<rparr>,
        expired = False, enteredOvertime = True\<rparr>"
  by (simp add: tick_def tickOvertime_loop.simps)

subsection \<open>C3: byo-yomi cascading\<close>

text \<open>
  C3. In a byo-yomi overtime state with \<open>P\<close> periods and remainder \<open>R\<close>, a tick by \<open>d\<close> returns
  the state with new values \<open>P'\<close>, \<open>R'\<close> and \<open>expired = (P' \<le> 0)\<close>, where, with
  \<open>T = periodTimeSeconds * 1000\<close>: if no period was left (\<open>P \<le> 0\<close>) the count is unchanged and the
  remainder clamped to 0; otherwise the player expires, with \<open>P' = 0\<close> and \<open>R' = 0\<close>, exactly when
  each of the \<open>P\<close> periods is overrun (\<open>R - d + j * T \<le> 0\<close> for all \<open>0 \<le> j < P\<close>); and when not
  expired, \<open>P - P'\<close> periods were consumed, each replenishing a full \<open>T\<close>, the remainder
  \<open>R' = R - d + (P - P') * T\<close> is positive, and no fewer periods would have sufficed.
\<close>

theorem tick_byoyomi_overtime_cascade:
  assumes "isInOvertime s" and "overtime s = Some (ByoYomiOvertime P R)"
  shows "\<exists>P' R'.
     tick s (ByoYomiConfig m p pt) d =
       \<lparr>newState = s\<lparr>overtime := Some (ByoYomiOvertime P' R')\<rparr>,
        expired = (P' \<le> 0), enteredOvertime = False\<rparr> \<and>
     (P \<le> 0 \<longrightarrow> P' = P \<and> R' = 0) \<and>
     (0 < P \<longrightarrow>
        (P' \<le> 0 \<longleftrightarrow> all_spent (pt * 1000) P (R - d)) \<and>
        (P' \<le> 0 \<longrightarrow> P' = 0 \<and> R' = 0) \<and>
        (0 < P' \<longrightarrow> P' \<le> P \<and> 0 < R' \<and> R' = R - d + (P - P') * (pt * 1000) \<and>
                    all_spent (pt * 1000) (P - P') (R - d)))"
proof -
  define T where "T = pt * 1000"
  define x where "x = R - d"
  obtain P0 R0 where loop: "tickOvertime_loop T P x = (P0, R0)"
    by (cases "tickOvertime_loop T P x") blast
  define R1 where "R1 = (if P0 \<le> 0 then 0 else R0)"
  have "tickOvertime s (ByoYomiConfig m p pt) d =
          (s\<lparr>overtime := Some (ByoYomiOvertime P0 R1)\<rparr>, P0 \<le> 0)"
    unfolding R1_def using assms(2) loop[unfolded T_def x_def] by (rule tickOvertime_byoyomi)
  then have res: "tick s (ByoYomiConfig m p pt) d =
       \<lparr>newState = s\<lparr>overtime := Some (ByoYomiOvertime P0 R1)\<rparr>,
        expired = (P0 \<le> 0), enteredOvertime = False\<rparr>"
    using tick_in_overtime[OF assms(1), of "ByoYomiConfig m p pt" d] by simp
  have nonpos: "P \<le> 0 \<longrightarrow> P0 = P \<and> R1 = 0"
  proof
    assume "P \<le> 0"
    then have "\<not> (x \<le> 0 \<and> P > 0)" by linarith
    from loop_stop[OF this, of T] loop have "(P0, R0) = (P, x)" by simp
    then have "P0 = P" by blast
    then show "P0 = P \<and> R1 = 0" using \<open>P \<le> 0\<close> by (simp add: R1_def)
  qed
  have pos: "0 < P \<longrightarrow>
        (P0 \<le> 0 \<longleftrightarrow> all_spent T P x) \<and>
        (P0 \<le> 0 \<longrightarrow> P0 = 0 \<and> R1 = 0) \<and>
        (0 < P0 \<longrightarrow> P0 \<le> P \<and> 0 < R1 \<and> R1 = x + (P - P0) * T \<and> all_spent T (P - P0) x)"
  proof
    assume P: "0 < P"
    have dead: "P0 \<le> 0 \<longrightarrow> P0 = 0 \<and> R1 = 0 \<and> all_spent T P x"
    proof
      assume "P0 \<le> 0"
      with loop_dead[OF loop P] show "P0 = 0 \<and> R1 = 0 \<and> all_spent T P x"
        by (simp add: R1_def)
    qed
    have alive: "0 < P0 \<longrightarrow> P0 \<le> P \<and> 0 < R1 \<and> R1 = x + (P - P0) * T \<and> all_spent T (P - P0) x"
    proof
      assume p0: "0 < P0"
      then have "R1 = R0" by (simp add: R1_def)
      then show "P0 \<le> P \<and> 0 < R1 \<and> R1 = x + (P - P0) * T \<and> all_spent T (P - P0) x"
        using loop_alive[OF loop p0] by blast
    qed
    have conv: "all_spent T P x \<longrightarrow> P0 \<le> 0"
    proof (rule impI, rule ccontr)
      assume sp: "all_spent T P x" and "\<not> P0 \<le> 0"
      then have p0: "0 < P0" by linarith
      from loop_alive[OF loop p0] have a: "P0 \<le> P" "0 < R0" "R0 = x + (P - P0) * T" by blast+
      have "0 \<le> P - P0 \<and> P - P0 < P" using a(1) p0 by linarith
      with sp have "x + (P - P0) * T \<le> 0" unfolding all_spent_iff by blast
      with a(2,3) show False by linarith
    qed
    from dead alive conv
    show "(P0 \<le> 0 \<longleftrightarrow> all_spent T P x) \<and>
        (P0 \<le> 0 \<longrightarrow> P0 = 0 \<and> R1 = 0) \<and>
        (0 < P0 \<longrightarrow> P0 \<le> P \<and> 0 < R1 \<and> R1 = x + (P - P0) * T \<and> all_spent T (P - P0) x)"
      by blast
  qed
  from res nonpos pos show ?thesis unfolding T_def x_def by blast
qed

text \<open>
  Instance of C3: 3 periods of 30 s with 1 s left on the current one, ticked by 32 s: two
  periods are consumed in the one call and 29 s remain on the last.
\<close>

theorem tick_byoyomi_overtime_cascade_witness:
  "tick \<lparr>mainTimeRemainingMs = 0, overtime = Some (ByoYomiOvertime 3 1000), moves = 7,
         isInOvertime = True\<rparr> (ByoYomiConfig 60 3 30) 32000
   = \<lparr>newState = \<lparr>mainTimeRemainingMs = 0, overtime = Some (ByoYomiOvertime 1 29000),
                    moves = 7, isInOvertime = True\<rparr>,
      expired = False, enteredOvertime = False\<rparr>"
proof -
  define s0 where "s0 = \<lparr>mainTimeRemainingMs = 0, overtime = Some (ByoYomiOvertime 3 1000),
                          moves = 7, isInOvertime = True\<rparr>"
  have h1: "isInOvertime s0" and h2: "overtime s0 = Some (ByoYomiOvertime 3 1000)"
    by (simp_all add: s0_def)
  from tick_byoyomi_overtime_cascade[OF h1 h2, of 60 3 30 32000]
  obtain P' R' where
    res: "tick s0 (ByoYomiConfig 60 3 30) 32000 =
            \<lparr>newState = s0\<lparr>overtime := Some (ByoYomiOvertime P' R')\<rparr>,
             expired = (P' \<le> 0), enteredOvertime = False\<rparr>"
    and dead: "P' \<le> 0 \<longleftrightarrow> all_spent (30 * 1000) 3 (1000 - 32000)"
    and alive: "0 < P' \<longrightarrow> P' \<le> 3 \<and> 0 < R' \<and> R' = 1000 - 32000 + (3 - P') * (30 * 1000) \<and>
                    all_spent (30 * 1000) (3 - P') (1000 - 32000)"
    by auto
  have "\<not> all_spent (30 * 1000) 3 (1000 - 32000)" by code_simp
  then have pos: "0 < P'" using dead by linarith
  then have a: "P' \<le> 3" "0 < R'" "R' = 1000 - 32000 + (3 - P') * (30 * 1000)"
    using alive by blast+
  have lin: "(3 - P') * (30 * 1000) = 90000 - 30000 * P'" by (simp add: algebra_simps)
  have "0 < 1000 - 32000 + (90000 - 30000 * P')" using a(2,3) lin by linarith
  then have "P' = 1" using pos by linarith
  then have "R' = 29000" using a(3) by simp
  then show ?thesis using res \<open>P' = 1\<close> by (simp add: s0_def)
qed

subsection \<open>C4: the Fischer case of the overtime tick\<close>

text \<open>
  C4 (as amended). Under a Fischer configuration a call to \<open>tick\<close> executes the Fischer case
  of the overtime-tick step exactly when the state passed in has \<open>isInOvertime = true\<close>; a tick
  on a state in main time, including the one that exhausts main time, makes no overtime-tick
  call at all. For a state reached from the initial state through ticks and moves, the case
  is executed exactly when an earlier tick of that sequence has already returned
  \<open>expired = true\<close>.
\<close>

theorem fischer_branch_iff_expiry_reported:
  "(tick_branch s (FischerConfig m inc) d = Some FischerBranch \<longleftrightarrow> isInOvertime s) \<and>
   (\<not> isInOvertime s \<longrightarrow> tick_branch s (FischerConfig m inc) d = None) \<and>
   (tick_branch (run (FischerConfig m inc) es) (FischerConfig m inc) d = Some FischerBranch
      \<longleftrightarrow> expiry_reported (FischerConfig m inc) es)"
  using fischer_overtime_iff_expiry[of m inc "createInitialPlayerState (FischerConfig m inc)" es]
  by (simp add: tick_branch_fischer run_def expiry_reported_def createInitialPlayerState_def)

text \<open>
  Instances of C4: after a tick, a move and a tick that leave main time on the clock, the
  next tick makes no overtime-tick call; after one more tick that exhausts main time, the next
  tick runs the Fischer case.
\<close>

theorem fischer_branch_iff_expiry_reported_witness:
  "\<not> isInOvertime (run (FischerConfig 60 10) [Tick 1000, Move, Tick 59000])
   \<and> tick_branch (run (FischerConfig 60 10) [Tick 1000, Move, Tick 59000]) (FischerConfig 60 10) 16 = None
   \<and> \<not> expiry_reported (FischerConfig 60 10) [Tick 1000, Move, Tick 59000]
   \<and> expiry_reported (FischerConfig 60 10) [Tick 1000, Move, Tick 59000, Tick 10000]
   \<and> tick_branch (run (FischerConfig 60 10) [Tick 1000, Move, Tick 59000, Tick 10000])
        (FischerConfig 60 10) 16 = Some FischerBranch"
  using fischer_branch_iff_expiry_reported
      [of "run (FischerConfig 60 10) [Tick 1000, Move, Tick 59000]" 60 10 16
          "[Tick 1000, Move, Tick 59000]"]
    fischer_branch_iff_expiry_reported
      [of "run (FischerConfig 60 10) [Tick 1000, Move, Tick 59000]" 60 10 16
          "[Tick 1000, Move, Tick 59000, Tick 10000]"]
  by (simp add: run_def expiry_reported_def createInitialPlayerState_def tick_def Let_def)

text \<open>
  C4 as stated fails: the state reached from the initial state of a 60 s Fischer game by one
  tick of 60000 is in overtime, and any further tick on it runs the Fischer case.
\<close>

theorem fischer_branch_counterexample:
  "run (FischerConfig 60 10) [Tick 60000]
     = \<lparr>mainTimeRemainingMs = 0, overtime = None, moves = 0, isInOvertime = True\<rparr>
   \<and> tick_branch (run (FischerConfig 60 10) [Tick 60000]) (FischerConfig 60 10) 16
     = Some FischerBranch"
  by (simp add: tick_branch_fischer run_def createInitialPlayerState_def tick_def)

subsection \<open>C5: invariant preservation\<close>

text \<open>
  C5. For every configuration satisfying the constraints of the data model and every state
  satisfying the invariants (no negative main time, move count or overtime counter; in
  overtime, main time is 0 and the overtime state is the variant of the scheme, absent for
  Fischer), the state returned by \<open>tick\<close> and the state returned by \<open>onMove\<close> satisfy the
  invariants again. This holds for every delta, in particular for every \<open>deltaMs \<ge> 0\<close>.
\<close>

theorem state_inv_preserved:
  assumes "valid_config c" and "state_inv c s"
  shows "state_inv c (newState (tick s c d)) \<and> state_inv c (onMove s c)"
  using tick_preserves_inv[OF assms] onMove_preserves_inv[OF assms] by simp

text \<open>
  Instance of C5: the initial state of a byo-yomi game (60 s, 3 periods of 30 s), ticked by
  95 s into its second period, and moved.
\<close>

theorem state_inv_preserved_witness:
  "valid_config (ByoYomiConfig 60 3 30)
   \<and> state_inv (ByoYomiConfig 60 3 30) (createInitialPlayerState (ByoYomiConfig 60 3 30))
   \<and> state_inv (ByoYomiConfig 60 3 30)
        (newState (tick (createInitialPlayerState (ByoYomiConfig 60 3 30)) (ByoYomiConfig 60 3 30) 95000))
   \<and> newState (tick (createInitialPlayerState (ByoYomiConfig 60 3 30)) (ByoYomiConfig 60 3 30) 95000)
      = \<lparr>mainTimeRemainingMs = 0, overtime = Some (ByoYomiOvertime 2 25000), moves = 0,
         isInOvertime = True\<rparr>
   \<and> state_inv (ByoYomiConfig 60 3 30)
        (onMove (createInitialPlayerState (ByoYomiConfig 60 3 30)) (ByoYomiConfig 60 3 30))"
proof -
  have v: "valid_config (ByoYomiConfig 60 3 30)" by simp
  have i: "state_inv (ByoYomiConfig 60 3 30) (createInitialPlayerState (ByoYomiConfig 60 3 30))"
    by (simp add: state_inv_def createInitialPlayerState_def)
  have e: "newState (tick (createInitialPlayerState (ByoYomiConfig 60 3 30)) (ByoYomiConfig 60 3 30) 95000)
      = \<lparr>mainTimeRemainingMs = 0, overtime = Some (ByoYomiOvertime 2 25000), moves = 0,
         isInOvertime = True\<rparr>"
    by (simp add: tick_def createInitialPlayerState_def tickOvertime_loop.simps)
  show ?thesis using v i e state_inv_preserved[OF v i, of 95000] by simp
qed

subsection \<open>C6: formatTime\<close>

text \<open>
  C6. For every integer \<open>ms\<close>, \<open>formatTime ms\<close> is the formatting of
  \<open>max 0 (ceiling (ms / 1000))\<close> seconds as \<open>H:MM:SS\<close> when the hours are positive and \<open>M:SS\<close>
  otherwise, minutes and seconds after a colon on exactly two digits, the leading field in
  plain decimal (which has no leading zero, \<open>toString_nat_no_leading_zero\<close>, and reads back
  as the number, \<open>decimal_value_toString_nat\<close>); and the six sample values are as listed.
\<close>

theorem formatTime_contract:
  "formatTime ms = spec_formatTime ms
   \<and> formatTime 0 = ''0:00''
   \<and> formatTime (- 5000) = ''0:00''
   \<and> formatTime 999 = ''0:01''
   \<and> formatTime 1001 = ''0:02''
   \<and> formatTime 3599000 = ''59:59''
   \<and> formatTime 3600000 = ''1:00:00''"
proof -
  define t where "t = nat (max 0 (Math_ceil_div ms 1000))"
  have a: "max 0 (Math_ceil_div ms 1000) = int t" by (simp add: t_def)
  have tt: "nat (max 0 \<lceil>real_of_int ms / 1000\<rceil>) = t"
    by (simp only: t_def Math_ceil_div_ceiling)
  have r: "formatTime ms = spec_formatTime ms"
    unfolding formatTime_nat[OF a] spec_formatTime_def Let_def tt ..
  have e1: "formatTime 0 = ''0:00''" by code_simp
  have e2: "formatTime (- 5000) = ''0:00''" by code_simp
  have e3: "formatTime 999 = ''0:01''" by code_simp
  have e4: "formatTime 1001 = ''0:02''" by code_simp
  have e5: "formatTime 3599000 = ''59:59''" by code_simp
  have e6: "formatTime 3600000 = ''1:00:00''" by code_simp
  from r e1 e2 e3 e4 e5 e6 show ?thesis by blast
qed

subsection \<open>C7: onMove under Fischer\<close>

text \<open>
  C7. \<open>onMove\<close> increments \<open>moves\<close> by exactly 1 for every scheme and state. Under Fischer it
  changes nothing else when the state is in overtime, and otherwise changes only
  \<open>mainTimeRemainingMs\<close>, adding \<open>incrementSeconds * 1000\<close>; so for a nonzero increment the main
  time grows by the increment if and only if \<open>isInOvertime = false\<close>.
\<close>

theorem onMove_moves_fischer_frame:
  "moves (onMove s c) = moves s + 1 \<and>
   onMove s (FischerConfig m inc) =
     (if isInOvertime s then s\<lparr>moves := moves s + 1\<rparr>
      else s\<lparr>moves := moves s + 1,
              mainTimeRemainingMs := mainTimeRemainingMs s + inc * 1000\<rparr>) \<and>
   (inc \<noteq> 0 \<longrightarrow>
      (mainTimeRemainingMs (onMove s (FischerConfig m inc)) = mainTimeRemainingMs s + inc * 1000
       \<longleftrightarrow> \<not> isInOvertime s))"
  by (cases c) (auto simp: Let_def split: option.splits OvertimeState.splits)

text \<open>
  Instances of C7: scenario D (50000 of main time, increment 10 s) and a Fischer state in
  overtime.
\<close>

theorem onMove_moves_fischer_frame_witness:
  "onMove \<lparr>mainTimeRemainingMs = 50000, overtime = None, moves = 0, isInOvertime = False\<rparr>
          (FischerConfig 60 10)
     = \<lparr>mainTimeRemainingMs = 60000, overtime = None, moves = 1, isInOvertime = False\<rparr>
   \<and> onMove \<lparr>mainTimeRemainingMs = 0, overtime = None, moves = 12, isInOvertime = True\<rparr>
          (FischerConfig 60 10)
     = \<lparr>mainTimeRemainingMs = 0, overtime = None, moves = 13, isInOvertime = True\<rparr>"
  using onMove_moves_fischer_frame
      [of "\<lparr>mainTimeRemainingMs = 50000, overtime = None, moves = 0, isInOvertime = False\<rparr>"
          "FischerConfig 60 10" 60 10]
    onMove_moves_fischer_frame
      [of "\<lparr>mainTimeRemainingMs = 0, overtime = None, moves = 12, isInOvertime = True\<rparr>"
          "FischerConfig 60 10" 60 10]
  by simp

subsection \<open>C8: onMove under Canadian overtime\<close>

text \<open>
  C8. In a Canadian overtime state \<open>onMove\<close> decrements \<open>stonesRemaining\<close> by 1; when the
  result is \<open>\<le> 0\<close> it resets, in the same call, \<open>stonesRemaining\<close> to \<open>config.stones\<close> and
  \<open>overtimeRemainingMs\<close> to \<open>config.overtimeSeconds * 1000\<close>; otherwise it stores the decremented
  count and leaves \<open>overtimeRemainingMs\<close> unchanged. Apart from \<open>moves\<close>, nothing else changes.
\<close>

theorem onMove_canadian_overtime:
  assumes "isInOvertime s" and "overtime s = Some (CanadianOvertime S R)"
  shows "onMove s (CanadianConfig m st ot) =
          (if S - 1 \<le> 0
           then s\<lparr>moves := moves s + 1, overtime := Some (CanadianOvertime st (ot * 1000))\<rparr>
           else s\<lparr>moves := moves s + 1, overtime := Some (CanadianOvertime (S - 1) R)\<rparr>)"
  using assms by simp

text \<open>
  Instances of C8: scenario E (the last stone of 25 resets the block) and a move with 25
  stones left.
\<close>

theorem onMove_canadian_overtime_witness:
  "onMove \<lparr>mainTimeRemainingMs = 0, overtime = Some (CanadianOvertime 1 50000), moves = 0,
           isInOvertime = True\<rparr> (CanadianConfig 60 25 300)
     = \<lparr>mainTimeRemainingMs = 0, overtime = Some (CanadianOvertime 25 300000), moves = 1,
        isInOvertime = True\<rparr>
   \<and> onMove \<lparr>mainTimeRemainingMs = 0, overtime = Some (CanadianOvertime 25 280000), moves = 0,
           isInOvertime = True\<rparr> (CanadianConfig 60 25 300)
     = \<lparr>mainTimeRemainingMs = 0, overtime = Some (CanadianOvertime 24 280000), moves = 1,
        isInOvertime = True\<rparr>"
  using onMove_canadian_overtime
      [of "\<lparr>mainTimeRemainingMs = 0, overtime = Some (CanadianOvertime 1 50000), moves = 0,
            isInOvertime = True\<rparr>" 1 50000 60 25 300]
    onMove_canadian_overtime
      [of "\<lparr>mainTimeRemainingMs = 0, overtime = Some (CanadianOvertime 25 280000), moves = 0,
            isInOvertime = True\<rparr>" 25 280000 60 25 300]
  by simp

subsection \<open>C9: the Canadian overtime tick\<close>

text \<open>
  C9. In a Canadian overtime state, a tick by any \<open>deltaMs\<close> subtracts \<open>deltaMs\<close> from
  \<open>overtimeRemainingMs\<close>; when the result is \<open>\<le> 0\<close> the counter is clamped to 0 and
  \<open>expired\<close> is true, otherwise \<open>expired\<close> is false. In both cases \<open>stonesRemaining\<close>
  and every other field of the state are unchanged, and \<open>enteredOvertime\<close> is false.
\<close>

theorem tick_canadian_overtime:
  assumes "isInOvertime s" and "overtime s = Some (CanadianOvertime S R)"
  shows "tick s (CanadianConfig m st ot) d =
           \<lparr>newState = s\<lparr>overtime := Some (CanadianOvertime S (max 0 (R - d)))\<rparr>,
            expired = (R - d \<le> 0),
            enteredOvertime = False\<rparr>"
  using assms by (simp add: tick_def max_def)

text \<open>
  Instance of C9: 10 stones and 1 s left, ticked by 1 s: expired, still 10 stones.
\<close>

theorem tick_canadian_overtime_witness:
  "tick \<lparr>mainTimeRemainingMs = 0, overtime = Some (CanadianOvertime 10 1000),
         moves = 4, isInOvertime = True\<rparr> (CanadianConfig 60 25 300) 1000 =
     \<lparr>newState = \<lparr>mainTimeRemainingMs = 0, overtime = Some (CanadianOvertime 10 0),
                   moves = 4, isInOvertime = True\<rparr>,
      expired = True, enteredOvertime = False\<rparr>"
  using tick_canadian_overtime
    [of "\<lparr>mainTimeRemainingMs = 0, overtime = Some (CanadianOvertime 10 1000),
          moves = 4, isInOvertime = True\<rparr>" 10 1000 60 25 300 1000]
  by simp

subsection \<open>C10: byo-yomi with no periods\<close>

text \<open>
  C10. Under a byo-yomi configuration with \<open>periods = 0\<close>, a tick on a state not in overtime
  with \<open>deltaMs \<ge> mainTimeRemainingMs\<close> returns \<open>enteredOvertime = true\<close> and \<open>expired = true\<close>
  together, with overtime \<open>{periodsRemaining: 0, periodTimeRemainingMs: 0}\<close>; a Fischer
  configuration returns the same two flags on the same input.
\<close>

theorem tick_byoyomi_zero_periods:
  assumes "\<not> isInOvertime s" and "mainTimeRemainingMs s \<le> d"
  shows "tick s (ByoYomiConfig m 0 pt) d =
           \<lparr>newState = s\<lparr>mainTimeRemainingMs := 0, isInOvertime := True,
                           overtime := Some (ByoYomiOvertime 0 0)\<rparr>,
            expired = True, enteredOvertime = True\<rparr>
         \<and> expired (tick s (FischerConfig m' inc) d)
         \<and> enteredOvertime (tick s (FischerConfig m' inc) d)"
  using assms by (simp add: tick_def loop_stop)

text \<open>
  Instance of C10: 1 s of main time, ticked by 1 s, with no periods configured.
\<close>

theorem tick_byoyomi_zero_periods_witness:
  "tick \<lparr>mainTimeRemainingMs = 1000, overtime = None, moves = 3, isInOvertime = False\<rparr>
        (ByoYomiConfig 60 0 30) 1000
   = \<lparr>newState = \<lparr>mainTimeRemainingMs = 0, overtime = Some (ByoYomiOvertime 0 0), moves = 3,
                    isInOvertime = True\<rparr>,
      expired = True, enteredOvertime = True\<rparr>"
  using tick_byoyomi_zero_periods
      [of "\<lparr>mainTimeRemainingMs = 1000, overtime = None, moves = 3, isInOvertime = False\<rparr>"
          1000 60 30 60 10]
  by simp

end
